theory Spec2Isabelle
  imports Main "HOL-Library.Word" "HOL-Library.Sublist"
begin

section \<open>The MySQL front end of dataux: frontends/mysqlfe/mysql_handler.go\<close>

text \<open>
  A shallow embedding of the per-connection handler \<^verbatim>\<open>MySqlHandler\<close>: its
  constructor \<^verbatim>\<open>Open\<close>, \<^verbatim>\<open>Close\<close>, \<^verbatim>\<open>SchemaUse\<close>, the command dispatch
  \<^verbatim>\<open>chooseCommand\<close> behind \<^verbatim>\<open>Handle\<close>, the query pipeline \<^verbatim>\<open>handleQuery\<close>
  and the helper \<^verbatim>\<open>makeBindVars\<close>.

  Go strings are byte strings and are modelled as \<^typ>\<open>string\<close> (a list of 8-bit
  characters); a \<^verbatim>\<open>[]byte\<close> is a list of 8-bit words. A Go \<^verbatim>\<open>error\<close> is an
  \<open>error option\<close> (\<open>None\<close> is \<^verbatim>\<open>nil\<close>), and a nilable pointer is an option.
\<close>

subsection \<open>Formatting: the verb \<^verbatim>\<open>%d\<close> of fmt.Sprintf\<close>

definition digit_char :: "nat \<Rightarrow> char" where
  "digit_char d = char_of (48 + d)"

text \<open>The decimal digits of a natural number, most significant first, as \<^verbatim>\<open>%d\<close> prints
  a non-negative integer.\<close>

function decimal :: "nat \<Rightarrow> string" where
  "decimal n = (if n < 10 then [digit_char n] else decimal (n div 10) @ [digit_char (n mod 10)])"
  by pat_completeness auto
termination
  by (relation "measure (\<lambda>n. n)") auto

declare decimal.simps [simp del]

text \<open>Reading a digit string back, used to show that \<open>decimal\<close> is injective.\<close>

definition digit_val :: "char \<Rightarrow> nat" where
  "digit_val c = of_char c - 48"

fun undecimal :: "nat \<Rightarrow> string \<Rightarrow> nat" where
  "undecimal acc [] = acc"
| "undecimal acc (c # cs) = undecimal (10 * acc + digit_val c) cs"

subsection \<open>makeBindVars\<close>

text \<open>
  \<^verbatim>\<open>
  func makeBindVars(args []interface{}) map[string]interface{} {
      bindVars := make(map[string]interface{}, len(args))
      for i, v := range args {
          bindVars[fmt.Sprintf("v%d", i+1)] = v
      }
      return bindVars
  }
  \<close>
  The map is a partial function from keys to values; the loop over the slice is a
  recursion that carries the index \<open>i\<close> and the map built so far.
\<close>

definition bindVar_key :: "nat \<Rightarrow> string" where
  "bindVar_key i = ''v'' @ decimal (i + 1)"

fun makeBindVars_loop :: "nat \<Rightarrow> 'a list \<Rightarrow> (string \<rightharpoonup> 'a) \<Rightarrow> (string \<rightharpoonup> 'a)" where
  "makeBindVars_loop i [] bindVars = bindVars"
| "makeBindVars_loop i (v # vs) bindVars = makeBindVars_loop (i + 1) vs (bindVars(bindVar_key i \<mapsto> v))"

definition makeBindVars :: "'a list \<Rightarrow> (string \<rightharpoonup> 'a)" where
  "makeBindVars args = makeBindVars_loop 0 args Map.empty"

subsection \<open>Panics, results and errors\<close>

text \<open>
  A Go call either returns or panics. The panics of this file are the index fault of
  \<^verbatim>\<open>req.Raw[0]\<close>, the explicit \<^verbatim>\<open>panic(fmt.Sprintf(...))\<close> of \<^verbatim>\<open>Open\<close> and whatever
  a collaborator raises; \<open>fault_string\<close> is the \<^verbatim>\<open>%v\<close> rendering used by the
  recovery handler of \<^verbatim>\<open>handleQuery\<close>.
\<close>

datatype fault = IndexOutOfRange | PanicValue string

datatype 'a outcome = Returns 'a | Panics fault

fun fault_string :: "fault \<Rightarrow> string" where
  "fault_string IndexOutOfRange = ''runtime error: index out of range''"
| "fault_string (PanicValue s) = s"

text \<open>
  Error values: \<open>MySqlError code msg\<close> is \<^verbatim>\<open>mysql.NewError(code, msg)\<close>, \<open>Errorf s\<close> is
  \<^verbatim>\<open>fmt.Errorf\<close> with the formatted text \<open>s\<close>, and \<open>CollabError s\<close> is an error value
  made by a collaborator (planner, job, transport).
\<close>

datatype error = MySqlError nat string | Errorf string | CollabError string

subsection \<open>Constants of the vendored mysql package\<close>

type_synonym byte = "8 word"

text \<open>Modelled from the spec: the command and error codes of vendored/mixer/mysql, which is
  not among the sources; the spec says they are byte-coded with the values fixed by the
  emulated wire protocol, so they are the codes of the MySQL client/server protocol.\<close>

definition COM_QUIT :: byte where "COM_QUIT = 1"
definition COM_INIT_DB :: byte where "COM_INIT_DB = 2"
definition COM_QUERY :: byte where "COM_QUERY = 3"
definition COM_FIELD_LIST :: byte where "COM_FIELD_LIST = 4"
definition COM_PING :: byte where "COM_PING = 14"
definition COM_STMT_PREPARE :: byte where "COM_STMT_PREPARE = 22"

definition ER_UNKNOWN_ERROR :: nat where "ER_UNKNOWN_ERROR = 1105"
definition ER_WARN_DEPRECATED_SYNTAX :: nat where "ER_WARN_DEPRECATED_SYNTAX = 1287"

subsection \<open>Strings\<close>

text \<open>\<^verbatim>\<open>string(req.Raw)\<close>: the bytes of the slice, unchanged.\<close>

definition string_of_bytes :: "byte list \<Rightarrow> string" where
  "string_of_bytes bs = map (\<lambda>b. char_of (unat b)) bs"

text \<open>
  \<^verbatim>\<open>strings.ToLower\<close> maps every rune of the text by \<^verbatim>\<open>unicode.ToLower\<close>. On a text
  of ASCII bytes only this maps the letters A to Z to a to z and keeps every other byte.
  On a text with a byte above 127 the runes are decoded from UTF-8, lowered by the Unicode
  tables and encoded again, an invalid byte becoming U+FFFD; the Unicode tables belong to
  the Go library, so this path is the parameter \<open>unicode_lower\<close>, applied to the whole
  text.
\<close>

definition lower_char :: "char \<Rightarrow> char" where
  "lower_char c = (let n = (of_char c :: nat) in if 65 \<le> n \<and> n \<le> 90 then char_of (n + 32) else c)"

definition is_ascii :: "char \<Rightarrow> bool" where
  "is_ascii c \<longleftrightarrow> (of_char c :: nat) < 128"

definition ToLower :: "(string \<Rightarrow> string) \<Rightarrow> string \<Rightarrow> string" where
  "ToLower unicode_lower s = (if list_all is_ascii s then map lower_char s else unicode_lower s)"

text \<open>\<^verbatim>\<open>strings.HasPrefix(s, p)\<close>.\<close>

definition HasPrefix :: "string \<Rightarrow> string \<Rightarrow> bool" where
  "HasPrefix s p = prefix p s"

subsection \<open>The data of a connection\<close>

text \<open>Modelled from the spec: the server context \<^verbatim>\<open>models.ServerCtx\<close> is declared
  outside the sources; the spec describes it as a registry mapping a schema name to a schema
  object, with the global configuration (whether to suppress panic recovery).\<close>

datatype Schema = Schema string

record config =
  SupressRecover :: bool

record server_ctx =
  Config :: config
  schemas :: "string \<rightharpoonup> Schema"

text \<open>\<^verbatim>\<open>m.svr.Schema(db)\<close>: the lookup in the registry.\<close>

definition svr_Schema :: "server_ctx \<Rightarrow> string \<Rightarrow> Schema option" where
  "svr_Schema s db = schemas s db"

text \<open>A \<^verbatim>\<open>*proxy.Conn\<close> is a handle, and so is the session-variables object that a call
  of \<^verbatim>\<open>NewMySqlSessionVars()\<close> allocates: two sessions are the same only if they are
  the same object.\<close>

datatype conn = Conn nat

datatype session = SessionVars nat

text \<open>
  \<^verbatim>\<open>
  type MySqlHandlerShared struct { svr *models.ServerCtx }
  type MySqlHandler struct {
      *MySqlHandlerShared
      sess   expr.ContextReader
      conn   *proxy.Conn
      schema *schema.Schema
  }
  \<close>
  The embedded shared part is the parent record. The code tests \<open>conn\<close> and \<open>schema\<close>
  against \<^verbatim>\<open>nil\<close>, so they are options; \<open>sess\<close> is \<^verbatim>\<open>nil\<close> until \<^verbatim>\<open>Open\<close>.
\<close>

record MySqlHandlerShared =
  svr :: server_ctx

record MySqlHandler = MySqlHandlerShared +
  sess :: "session option"
  conn :: "conn option"
  schema :: "Schema option"

text \<open>The request of \<^verbatim>\<open>models.Request\<close>: the raw payload, command byte first.\<close>

record Request =
  Raw :: "byte list"

type_synonym result_writer = nat

type_synonym mysql_result = nat

subsection \<open>Query context, statements, jobs and result writers\<close>

text \<open>The parsed statement kinds the type switch of \<^verbatim>\<open>handleQuery\<close> tells apart;
  \<open>OtherStmt T\<close> is a statement of any other dynamic type \<open>T\<close>.\<close>

datatype stmt =
  SqlSelect | SqlShow | SqlDescribe | SqlInsert | SqlUpsert | SqlUpdate | SqlDelete
  | SqlCommand | OtherStmt string

text \<open>\<^verbatim>\<open>plan.Context\<close>, with the fields this file sets or reads.\<close>

record plan_ctx =
  ctx_Raw :: string
  DisableRecover :: bool
  Session :: "session option"
  ctx_Schema :: "Schema option"
  Stmt :: "stmt option"

definition NewContext :: "string \<Rightarrow> plan_ctx" where
  "NewContext query = \<lparr>ctx_Raw = query, DisableRecover = False, Session = None,
     ctx_Schema = None, Stmt = None\<rparr>"

record job =
  job_id :: nat
  Ctx :: plan_ctx

text \<open>The three result writers, each built from the result sink and the job's context.\<close>

datatype task =
  MySqlResultWriter result_writer plan_ctx
  | MySqlSchemaWriter result_writer plan_ctx
  | MySqlExecResultWriter result_writer plan_ctx

subsection \<open>Collaborators\<close>

text \<open>
  The transport, the planner and the job are outside this file. Every call to one of them
  is recorded as an event, in order, and what the call returns (or that it panics) is given
  by a function of the events so far and the arguments. \<open>CommandString\<close> is the name
  table of the mysql package, and \<open>unicode_ToLower\<close> is the Unicode path of
  \<^verbatim>\<open>strings.ToLower\<close>.
\<close>

datatype event =
  ConnClose conn
  | ConnWriteOK "conn option" "mysql_result option"
  | Build plan_ctx
  | JobFinalize job task
  | JobRun job
  | JobClose job

record collaborators =
  CommandString :: "byte \<Rightarrow> string"
  unicode_ToLower :: "string \<Rightarrow> string"
  conn_Close :: "event list \<Rightarrow> conn \<Rightarrow> error option outcome"
  conn_WriteOK :: "event list \<Rightarrow> conn option \<Rightarrow> mysql_result option \<Rightarrow> error option outcome"
  BuildMySqlJob :: "event list \<Rightarrow> server_ctx \<Rightarrow> plan_ctx \<Rightarrow> (job option \<times> error option) outcome"
  job_Finalize :: "event list \<Rightarrow> job \<Rightarrow> task \<Rightarrow> error option outcome"
  job_Run :: "event list \<Rightarrow> job \<Rightarrow> error option outcome"
  job_Close :: "event list \<Rightarrow> job \<Rightarrow> error option outcome"

text \<open>How often \<^verbatim>\<open>Close\<close> of a job was called in a sequence of events.\<close>

definition close_count :: "job \<Rightarrow> event list \<Rightarrow> nat" where
  "close_count j tr = length (filter (\<lambda>e. e = JobClose j) tr)"

subsection \<open>NewMySqlHandler, Open, Close, SchemaUse\<close>

text \<open>\<^verbatim>\<open>NewMySqlHandler\<close>: the template handler, with the error of \<^verbatim>\<open>Init\<close>
  (always \<^verbatim>\<open>nil\<close>).\<close>

definition NewMySqlHandler :: "server_ctx \<Rightarrow> MySqlHandler \<times> error option" where
  "NewMySqlHandler s = (\<lparr>svr = s, sess = None, conn = None, schema = None\<rparr>, None)"

text \<open>
  The argument of \<^verbatim>\<open>Open\<close> is an \<^verbatim>\<open>interface{}\<close>: either a \<^verbatim>\<open>*proxy.Conn\<close> (which
  may be a nil pointer) or a value of another dynamic type, of which only the name
  printed by \<^verbatim>\<open>%T\<close> matters.
  \<^verbatim>\<open>
  func (m *MySqlHandler) Open(connI interface{}) models.Handler {
      handler := MySqlHandler{MySqlHandlerShared: m.MySqlHandlerShared}
      handler.sess = NewMySqlSessionVars()
      if conn, ok := connI.(*proxy.Conn); ok {
          handler.conn = conn
          return &handler
      }
      panic(fmt.Sprintf("not proxy.Conn? %T", connI))
  }
  \<close>
  \<^verbatim>\<open>NewMySqlSessionVars\<close> is defined outside this file; the object its call returns is
  the parameter \<open>new_sess\<close>.
\<close>

datatype transport = ProxyConn "conn option" | NotProxyConn string

definition Open :: "MySqlHandler \<Rightarrow> transport \<Rightarrow> session \<Rightarrow> MySqlHandler outcome" where
  "Open m connI new_sess =
     (let handler = \<lparr>svr = svr m, sess = Some new_sess, conn = None, schema = None\<rparr>
      in case connI of
           ProxyConn c \<Rightarrow> Returns (handler\<lparr>conn := c\<rparr>)
         | NotProxyConn T \<Rightarrow> Panics (PanicValue (''not proxy.Conn? '' @ T)))"

text \<open>
  \<^verbatim>\<open>
  func (m *MySqlHandler) Close() error {
      if m.conn != nil {
          err := m.conn.Close()
          m.conn = nil
          return err
      }
      return nil
  }
  \<close>
  The result is what the call returns, the handler after it and the events after it.
\<close>

definition Close ::
  "collaborators \<Rightarrow> MySqlHandler \<Rightarrow> event list \<Rightarrow> error option outcome \<times> MySqlHandler \<times> event list" where
  "Close env m tr =
     (case conn m of
        Some c \<Rightarrow>
          (case conn_Close env tr c of
             Returns err \<Rightarrow> (Returns err, m\<lparr>conn := None\<rparr>, tr @ [ConnClose c])
           | Panics f \<Rightarrow> (Panics f, m, tr @ [ConnClose c]))
      | None \<Rightarrow> (Returns None, m, tr))"

text \<open>
  \<^verbatim>\<open>
  func (m *MySqlHandler) SchemaUse(db string) *schema.Schema {
      schema := m.svr.Schema(db)
      if schema == nil {
          u.Warnf("Could not find schema for db=%s", db)
          return nil
      }
      m.schema = schema
      return schema
  }
  \<close>
  Log lines are not modelled, here and below.
\<close>

definition SchemaUse :: "MySqlHandler \<Rightarrow> string \<Rightarrow> Schema option \<times> MySqlHandler" where
  "SchemaUse m db =
     (case svr_Schema (svr m) db of
        None \<Rightarrow> (None, m)
      | Some s \<Rightarrow> (Some s, m\<lparr>schema := Some s\<rparr>))"

text \<open>\<^verbatim>\<open>func (m *MySqlHandler) writeOK(r *mysql.Result) error { return m.conn.WriteOK(r) }\<close>:
  the call goes to the transport even when \<open>conn\<close> is nil, and the transport decides.\<close>

definition writeOK ::
  "collaborators \<Rightarrow> MySqlHandler \<Rightarrow> mysql_result option \<Rightarrow> event list \<Rightarrow> error option outcome \<times> event list" where
  "writeOK env m r tr = (conn_WriteOK env tr (conn m) r, tr @ [ConnWriteOK (conn m) r])"

subsection \<open>handleQuery\<close>

text \<open>
  The type switch on \<^verbatim>\<open>job.Ctx.Stmt\<close>: a result writer for the rest of the pipeline, an
  immediate OK reply, or the error for a statement type that is not supported (a nil
  statement prints as \<^verbatim>\<open><nil>\<close>).
\<close>

datatype switch_result = Writer task | ReplyOK | NotSupported string

fun stmt_switch :: "result_writer \<Rightarrow> plan_ctx \<Rightarrow> stmt option \<Rightarrow> switch_result" where
  "stmt_switch writer c (Some SqlSelect) = Writer (MySqlResultWriter writer c)"
| "stmt_switch writer c (Some SqlShow) = Writer (MySqlSchemaWriter writer c)"
| "stmt_switch writer c (Some SqlDescribe) = Writer (MySqlSchemaWriter writer c)"
| "stmt_switch writer c (Some SqlInsert) = Writer (MySqlExecResultWriter writer c)"
| "stmt_switch writer c (Some SqlUpsert) = Writer (MySqlExecResultWriter writer c)"
| "stmt_switch writer c (Some SqlUpdate) = Writer (MySqlExecResultWriter writer c)"
| "stmt_switch writer c (Some SqlDelete) = Writer (MySqlExecResultWriter writer c)"
| "stmt_switch writer c (Some SqlCommand) = ReplyOK"
| "stmt_switch writer c (Some (OtherStmt T)) = NotSupported T"
| "stmt_switch writer c None = NotSupported ''<nil>''"

text \<open>
  The end of \<^verbatim>\<open>handleQuery\<close>, once a result writer is chosen:
  \<^verbatim>\<open>
      err = job.Finalize(resultWriter)
      if err != nil {
          u.Errorf("error on finalize %v", err)
          return err
      }
      err = job.Run()
      if err != nil {
          u.Errorf("error on Query.Run(): %v", err)
      }
      job.Close()
      return err
  \<close>
\<close>

definition handleQuery_run ::
  "collaborators \<Rightarrow> job \<Rightarrow> task \<Rightarrow> event list \<Rightarrow> error option outcome \<times> event list" where
  "handleQuery_run env j resultWriter tr =
     (let tr1 = tr @ [JobFinalize j resultWriter] in
      case job_Finalize env tr j resultWriter of
        Panics f \<Rightarrow> (Panics f, tr1)
      | Returns ferr \<Rightarrow>
          (case ferr of
             Some e \<Rightarrow> (Returns (Some e), tr1)
           | None \<Rightarrow>
               (let tr2 = tr1 @ [JobRun j] in
                case job_Run env tr1 j of
                  Panics f \<Rightarrow> (Panics f, tr2)
                | Returns err \<Rightarrow>
                    (let tr3 = tr2 @ [JobClose j] in
                     case job_Close env tr2 j of
                       Panics f \<Rightarrow> (Panics f, tr3)
                     | Returns cerr \<Rightarrow> (Returns err, tr3)))))"

text \<open>
  The body of \<^verbatim>\<open>handleQuery\<close> below the deferred recovery handler. It returns the value
  of the variable \<^verbatim>\<open>sql\<close> at the exit (the planning-error branch overwrites it with its
  lower-case form), the outcome and the events.
  \<^verbatim>\<open>
      if m.schema == nil {
          return fmt.Errorf("no schema in use")
      }
      ctx := plan.NewContext(sql)
      ctx.DisableRecover = m.svr.Config.SupressRecover
      ctx.Session = m.sess
      ctx.Schema = m.schema
      job, err := BuildMySqlJob(m.svr, ctx)
      if err != nil {
          sql = strings.ToLower(sql)
          switch {
          case strings.HasPrefix(sql, "set "):
              return m.conn.WriteOK(nil)
          }
          return err
      }
      if job == nil {
          return nil
      }
      var resultWriter exec.Task
      switch stmt := job.Ctx.Stmt.(type) { ... }
  \<close>
\<close>

definition query_ctx :: "MySqlHandler \<Rightarrow> string \<Rightarrow> plan_ctx" where
  "query_ctx m sql = (NewContext sql)\<lparr>DisableRecover := SupressRecover (Config (svr m)),
     Session := sess m, ctx_Schema := schema m\<rparr>"

definition handleQuery_body ::
  "collaborators \<Rightarrow> MySqlHandler \<Rightarrow> result_writer \<Rightarrow> string \<Rightarrow> event list
     \<Rightarrow> string \<times> error option outcome \<times> event list" where
  "handleQuery_body env m writer sql tr =
     (case schema m of
        None \<Rightarrow> (sql, Returns (Some (Errorf ''no schema in use'')), tr)
      | Some s \<Rightarrow>
          (let ctx = query_ctx m sql;
               tr1 = tr @ [Build ctx]
           in case BuildMySqlJob env tr (svr m) ctx of
                Panics f \<Rightarrow> (sql, Panics f, tr1)
              | Returns (jb, err) \<Rightarrow>
                  (case err of
                     Some e \<Rightarrow>
                       (let sql' = ToLower (unicode_ToLower env) sql in
                        if HasPrefix sql' ''set ''
                        then (sql', conn_WriteOK env tr1 (conn m) None, tr1 @ [ConnWriteOK (conn m) None])
                        else (sql', Returns (Some e), tr1))
                   | None \<Rightarrow>
                       (case jb of
                          None \<Rightarrow> (sql, Returns None, tr1)
                        | Some j \<Rightarrow>
                            (case stmt_switch writer (Ctx j) (Stmt (Ctx j)) of
                               Writer resultWriter \<Rightarrow>
                                 (let (r, tr2) = handleQuery_run env j resultWriter tr1 in (sql, r, tr2))
                             | ReplyOK \<Rightarrow>
                                 (sql, conn_WriteOK env tr1 (conn m) None,
                                  tr1 @ [ConnWriteOK (conn m) None])
                             | NotSupported T \<Rightarrow>
                                 (sql, Returns (Some (Errorf (''statement type '' @ T @ '' not supported''))),
                                  tr1))))))"

text \<open>
  \<^verbatim>\<open>
  func (m *MySqlHandler) handleQuery(writer models.ResultWriter, sql string) (err error) {
      if !m.svr.Config.SupressRecover {
          defer func() {
              if e := recover(); e != nil {
                  err = fmt.Errorf("handle query %s error %v", sql, e)
                  return
              }
          }()
      }
      ...
  \<close>
  Unless recovery is suppressed, a panic of the body becomes a returned error that
  carries the value of \<^verbatim>\<open>sql\<close> at that moment.
\<close>

definition recovered :: "bool \<Rightarrow> string \<Rightarrow> error option outcome \<Rightarrow> error option outcome" where
  "recovered suppress sql r =
     (case r of
        Panics e \<Rightarrow>
          if \<not> suppress
          then Returns (Some (Errorf (''handle query '' @ sql @ '' error '' @ fault_string e)))
          else Panics e
      | Returns err \<Rightarrow> Returns err)"

definition handleQuery ::
  "collaborators \<Rightarrow> MySqlHandler \<Rightarrow> result_writer \<Rightarrow> string \<Rightarrow> event list
     \<Rightarrow> error option outcome \<times> event list" where
  "handleQuery env m writer sql tr =
     (case handleQuery_body env m writer sql tr of
        (sql', r, tr') \<Rightarrow> (recovered (SupressRecover (Config (svr m))) sql' r, tr'))"

subsection \<open>chooseCommand and Handle\<close>

text \<open>
  \<^verbatim>\<open>
  func (m *MySqlHandler) chooseCommand(writer models.ResultWriter, req *models.Request) error {
      cmd := req.Raw[0]
      req.Raw = req.Raw[1:]
      switch cmd {
      case mysql.COM_FIELD_LIST:
          msg := fmt.Sprintf("command %d:%s is deprecated", cmd, mysql.CommandString(cmd))
          return mysql.NewError(mysql.ER_WARN_DEPRECATED_SYNTAX, msg)
      case mysql.COM_QUERY, mysql.COM_STMT_PREPARE:
          return m.handleQuery(writer, string(req.Raw))
      case mysql.COM_PING:
          return m.writeOK(nil)
      case mysql.COM_QUIT:
          m.Close()
          return nil
      case mysql.COM_INIT_DB:
          if s := m.SchemaUse(string(req.Raw)); s == nil {
              return fmt.Errorf("Schema not found %s", string(req.Raw))
          } else {
              return m.writeOK(nil)
          }
      default:
          msg := fmt.Sprintf("command %d:%s not yet supported", cmd, mysql.CommandString(cmd))
          return mysql.NewError(mysql.ER_UNKNOWN_ERROR, msg)
      }
  }
  \<close>
  Indexing an empty slice panics before anything else happens. The result is the outcome,
  the handler, the request (whose \<open>Raw\<close> has lost its first byte) and the events.
\<close>

definition command_msg :: "collaborators \<Rightarrow> byte \<Rightarrow> string \<Rightarrow> string" where
  "command_msg env cmd ending =
     ''command '' @ decimal (unat cmd) @ '':'' @ CommandString env cmd @ ending"

definition chooseCommand ::
  "collaborators \<Rightarrow> MySqlHandler \<Rightarrow> result_writer \<Rightarrow> Request \<Rightarrow> event list
     \<Rightarrow> error option outcome \<times> MySqlHandler \<times> Request \<times> event list" where
  "chooseCommand env m writer req tr =
     (case Raw req of
        [] \<Rightarrow> (Panics IndexOutOfRange, m, req, tr)
      | cmd # rest \<Rightarrow>
          (let req' = req\<lparr>Raw := rest\<rparr> in
           if cmd = COM_FIELD_LIST then
             (Returns (Some (MySqlError ER_WARN_DEPRECATED_SYNTAX (command_msg env cmd '' is deprecated''))),
              m, req', tr)
           else if cmd = COM_QUERY \<or> cmd = COM_STMT_PREPARE then
             (let (r, tr') = handleQuery env m writer (string_of_bytes rest) tr in (r, m, req', tr'))
           else if cmd = COM_PING then
             (let (r, tr') = writeOK env m None tr in (r, m, req', tr'))
           else if cmd = COM_QUIT then
             (case Close env m tr of
                (Panics f, m', tr') \<Rightarrow> (Panics f, m', req', tr')
              | (Returns _, m', tr') \<Rightarrow> (Returns None, m', req', tr'))
           else if cmd = COM_INIT_DB then
             (case SchemaUse m (string_of_bytes rest) of
                (None, m') \<Rightarrow>
                  (Returns (Some (Errorf (''Schema not found '' @ string_of_bytes rest))), m', req', tr)
              | (Some s, m') \<Rightarrow>
                  (let (r, tr') = writeOK env m' None tr in (r, m', req', tr')))
           else
             (Returns (Some (MySqlError ER_UNKNOWN_ERROR (command_msg env cmd '' not yet supported''))),
              m, req', tr)))"

text \<open>\<^verbatim>\<open>Handle\<close> is the entry point of the transport loop and only delegates.\<close>

definition Handle ::
  "collaborators \<Rightarrow> MySqlHandler \<Rightarrow> result_writer \<Rightarrow> Request \<Rightarrow> event list
     \<Rightarrow> error option outcome \<times> MySqlHandler \<times> Request \<times> event list" where
  "Handle env m writer req tr = chooseCommand env m writer req tr"

text \<open>Collaborators of which no call ever panics.\<close>

definition collaborators_return :: "collaborators \<Rightarrow> bool" where
  "collaborators_return env \<longleftrightarrow>
     (\<forall>tr c. \<exists>r. conn_Close env tr c = Returns r)
     \<and> (\<forall>tr c x. \<exists>r. conn_WriteOK env tr c x = Returns r)
     \<and> (\<forall>tr s c. \<exists>r. BuildMySqlJob env tr s c = Returns r)
     \<and> (\<forall>tr j t. \<exists>r. job_Finalize env tr j t = Returns r)
     \<and> (\<forall>tr j. \<exists>r. job_Run env tr j = Returns r)
     \<and> (\<forall>tr j. \<exists>r. job_Close env tr j = Returns r)"

subsection \<open>A concrete connection\<close>

text \<open>
  A server with one schema, a handler on it, and collaborators that answer the same
  way whatever happened before: the planner answers \<open>built\<close>, \<^verbatim>\<open>Finalize\<close> answers
  \<open>finalized\<close>, \<^verbatim>\<open>Run\<close> answers \<open>run_result\<close>, and the transport always succeeds. They are
  the inputs at which the properties below are evaluated. The texts evaluated there are
  ASCII, so the Unicode path of \<^verbatim>\<open>strings.ToLower\<close> is never taken and is left as the
  identity here.
\<close>

definition example_svr :: server_ctx where
  "example_svr = \<lparr>Config = \<lparr>SupressRecover = False\<rparr>, schemas = [''db'' \<mapsto> Schema ''db'']\<rparr>"

definition example_template :: MySqlHandler where
  "example_template = fst (NewMySqlHandler example_svr)"

definition example_handler :: MySqlHandler where
  "example_handler = \<lparr>svr = example_svr, sess = Some (SessionVars 1), conn = Some (Conn 1),
     schema = Some (Schema ''db'')\<rparr>"

definition example_job :: "stmt \<Rightarrow> job" where
  "example_job st = \<lparr>job_id = 1, Ctx = (query_ctx example_handler ''select 1'')\<lparr>Stmt := Some st\<rparr>\<rparr>"

definition example_env ::
  "(job option \<times> error option) outcome \<Rightarrow> error option outcome \<Rightarrow> error option outcome \<Rightarrow> collaborators" where
  "example_env built finalized run_result =
     \<lparr>CommandString = (\<lambda>c. if c = 0 then ''Sleep'' else ''Other''),
      unicode_ToLower = (\<lambda>s. s),
      conn_Close = (\<lambda>tr c. Returns None),
      conn_WriteOK = (\<lambda>tr c r. Returns None),
      BuildMySqlJob = (\<lambda>tr s c. built),
      job_Finalize = (\<lambda>tr j t. finalized),
      job_Run = (\<lambda>tr j. run_result),
      job_Close = (\<lambda>tr j. Returns None)\<rparr>"

section \<open>Properties\<close>

subsection \<open>Decimal rendering is injective\<close>

lemma digit_val_digit_char: "d < 10 \<Longrightarrow> digit_val (digit_char d) = d"
  by (simp add: digit_val_def digit_char_def)

lemma undecimal_append: "undecimal acc (xs @ ys) = undecimal (undecimal acc xs) ys"
  by (induction xs arbitrary: acc) simp_all

lemma undecimal_decimal: "undecimal 0 (decimal n) = n"
proof (induction n rule: decimal.induct)
  case (1 n)
  show ?case
  proof (cases "n < 10")
    case True
    then show ?thesis
      by (subst decimal.simps) (simp add: digit_val_digit_char)
  next
    case False
    with 1 have ih: "undecimal 0 (decimal (n div 10)) = n div 10" by simp
    have "undecimal 0 (decimal n) = undecimal 0 (decimal (n div 10) @ [digit_char (n mod 10)])"
      using False by (subst decimal.simps) simp
    also have "\<dots> = 10 * (n div 10) + n mod 10"
      by (simp add: undecimal_append ih digit_val_digit_char)
    finally show ?thesis by simp
  qed
qed

lemma decimal_inject: "decimal a = decimal b \<longleftrightarrow> a = b"
  by (metis undecimal_decimal)

lemma bindVar_key_inject: "bindVar_key i = bindVar_key j \<longleftrightarrow> i = j"
  by (simp add: bindVar_key_def decimal_inject)

lemma decimal_0: "decimal 0 = ''0''" by code_simp
lemma decimal_2: "decimal 2 = ''2''" by code_simp
lemma decimal_4: "decimal 4 = ''4''" by code_simp
lemma decimal_Suc_0: "decimal (Suc 0) = ''1''" by code_simp
lemma decimal_Suc_Suc_0: "decimal (Suc (Suc 0)) = ''2''" by code_simp
lemma decimal_Suc_Suc_Suc_0: "decimal (Suc (Suc (Suc 0))) = ''3''" by code_simp

subsection \<open>The loop of makeBindVars\<close>

text \<open>A key that the loop does not write keeps its binding.\<close>

lemma makeBindVars_loop_other:
  "(\<forall>j<length vs. k \<noteq> bindVar_key (i + j)) \<Longrightarrow> makeBindVars_loop i vs m k = m k"
proof (induction vs arbitrary: i m)
  case Nil
  then show ?case by simp
next
  case (Cons v vs)
  have later: "\<forall>j<length vs. k \<noteq> bindVar_key (i + 1 + j)"
  proof (intro allI impI)
    fix j assume "j < length vs"
    then have "Suc j < length (v # vs)" by simp
    with Cons.prems have "k \<noteq> bindVar_key (i + Suc j)" by blast
    then show "k \<noteq> bindVar_key (i + 1 + j)" by simp
  qed
  have first: "k \<noteq> bindVar_key i" using Cons.prems[rule_format, of 0] by simp
  have "makeBindVars_loop (i + 1) vs (m(bindVar_key i \<mapsto> v)) k = (m(bindVar_key i \<mapsto> v)) k"
    using later by (rule Cons.IH)
  with first show ?case by simp
qed

text \<open>The \<open>j\<close>-th element of the rest of the slice ends up under the key of index \<open>i + j\<close>:
  no later iteration overwrites it, because the keys of different indices differ.\<close>

lemma makeBindVars_loop_lookup:
  "j < length vs \<Longrightarrow> makeBindVars_loop i vs m (bindVar_key (i + j)) = Some (vs ! j)"
proof (induction vs arbitrary: i m j)
  case Nil
  then show ?case by simp
next
  case (Cons v vs)
  show ?case
  proof (cases j)
    case 0
    have "\<forall>j'<length vs. bindVar_key i \<noteq> bindVar_key (i + 1 + j')"
      by (simp add: bindVar_key_inject)
    then have "makeBindVars_loop (i + 1) vs (m(bindVar_key i \<mapsto> v)) (bindVar_key i) = Some v"
      by (simp add: makeBindVars_loop_other)
    with 0 show ?thesis by simp
  next
    case (Suc j')
    with Cons.prems have "j' < length vs" by simp
    then have "makeBindVars_loop (i + 1) vs (m(bindVar_key i \<mapsto> v)) (bindVar_key (i + 1 + j'))
                 = Some (vs ! j')"
      by (rule Cons.IH)
    with Suc show ?thesis by simp
  qed
qed

lemma dom_makeBindVars_loop:
  "dom (makeBindVars_loop i vs m) = dom m \<union> bindVar_key ` {i..<i + length vs}"
proof (induction vs arbitrary: i m)
  case Nil
  then show ?case by simp
next
  case (Cons v vs)
  have range: "{i..<i + length (v # vs)} = insert i {i + 1..<i + 1 + length vs}" by auto
  have "dom (makeBindVars_loop (i + 1) vs (m(bindVar_key i \<mapsto> v)))
          = dom (m(bindVar_key i \<mapsto> v)) \<union> bindVar_key ` {i + 1..<i + 1 + length vs}"
    by (rule Cons.IH)
  with range show ?case by simp
qed

text \<open>
  Claim C6. \<^verbatim>\<open>makeBindVars\<close> is a total function without side effects (it is a
  terminating recursion on its argument that touches nothing else). For a sequence of
  \<open>n\<close> arguments the keys of the result are exactly \<^verbatim>\<open>v1\<close> to \<^verbatim>\<open>vn\<close>, the \<open>k\<close>-th
  argument (counting from one) is bound to the key \<^verbatim>\<open>vk\<close>, the empty sequence gives the empty
  mapping, and the arguments 10, 20, 30 give \<^verbatim>\<open>{"v1":10, "v2":20, "v3":30}\<close>.
\<close>

theorem makeBindVars_keys_values:
  "dom (makeBindVars args) = {''v'' @ decimal k | k. 1 \<le> k \<and> k \<le> length args}
   \<and> (\<forall>k. 1 \<le> k \<and> k \<le> length args \<longrightarrow>
         makeBindVars args (''v'' @ decimal k) = Some (args ! (k - 1)))
   \<and> makeBindVars ([] :: 'a list) = Map.empty
   \<and> makeBindVars [10, 20, 30 :: int] = [''v1'' \<mapsto> 10, ''v2'' \<mapsto> 20, ''v3'' \<mapsto> 30]"
proof (intro conjI allI impI)
  have "bindVar_key ` {0..<0 + length args} = {''v'' @ decimal k | k. 1 \<le> k \<and> k \<le> length args}"
  proof (intro set_eqI iffI)
    fix x assume "x \<in> bindVar_key ` {0..<0 + length args}"
    then obtain i where "i < length args" "x = ''v'' @ decimal (i + 1)"
      by (auto simp: bindVar_key_def)
    then have "x = ''v'' @ decimal (i + 1) \<and> 1 \<le> i + 1 \<and> i + 1 \<le> length args" by simp
    then show "x \<in> {''v'' @ decimal k | k. 1 \<le> k \<and> k \<le> length args}" by blast
  next
    fix x assume "x \<in> {''v'' @ decimal k | k. 1 \<le> k \<and> k \<le> length args}"
    then obtain k where k: "x = ''v'' @ decimal k" "1 \<le> k" "k \<le> length args" by blast
    then have "x = bindVar_key (k - 1)" "k - 1 \<in> {0..<0 + length args}"
      by (simp_all add: bindVar_key_def)
    then show "x \<in> bindVar_key ` {0..<0 + length args}" by blast
  qed
  then show "dom (makeBindVars args) = {''v'' @ decimal k | k. 1 \<le> k \<and> k \<le> length args}"
    by (simp add: makeBindVars_def dom_makeBindVars_loop)
next
  fix k assume k: "1 \<le> k \<and> k \<le> length args"
  then have "k - 1 < length args" by arith
  from makeBindVars_loop_lookup[OF this, of 0 Map.empty] k
  show "makeBindVars args (''v'' @ decimal k) = Some (args ! (k - 1))"
    by (simp add: makeBindVars_def bindVar_key_def)
next
  show "makeBindVars ([] :: 'a list) = Map.empty"
    by (simp add: makeBindVars_def)
next
  show "makeBindVars [10, 20, 30 :: int] = [''v1'' \<mapsto> 10, ''v2'' \<mapsto> 20, ''v3'' \<mapsto> 30]"
    by (simp add: makeBindVars_def bindVar_key_def decimal_Suc_0 decimal_Suc_Suc_0
        decimal_Suc_Suc_Suc_0)
qed

theorem makeBindVars_keys_values_witness:
  "dom (makeBindVars [''a'', ''b'']) = {''v1'', ''v2''}
   \<and> makeBindVars [''a'', ''b''] ''v2'' = Some ''b''"
proof -
  have keys: "{''v'' @ decimal k | k. 1 \<le> k \<and> k \<le> length [''a'', ''b'']} = {''v1'', ''v2''}"
  proof (intro set_eqI iffI)
    fix x assume "x \<in> {''v'' @ decimal k | k. 1 \<le> k \<and> k \<le> length [''a'', ''b'']}"
    then obtain k where "x = ''v'' @ decimal k" "1 \<le> k" "k \<le> 2" by auto
    then have "k = 1 \<or> k = 2" by arith
    with \<open>x = ''v'' @ decimal k\<close> show "x \<in> {''v1'', ''v2''}"
      using decimal_Suc_0 decimal_2 by auto
  next
    fix x assume "x \<in> {''v1'', ''v2''}"
    then have "x = ''v'' @ decimal (Suc 0) \<or> x = ''v'' @ decimal 2"
      using decimal_Suc_0 decimal_2 by auto
    then have "(x = ''v'' @ decimal (Suc 0) \<and> 1 \<le> Suc 0 \<and> Suc 0 \<le> length [''a'', ''b''])
        \<or> (x = ''v'' @ decimal 2 \<and> (1::nat) \<le> 2 \<and> 2 \<le> length [''a'', ''b''])"
      by simp
    then show "x \<in> {''v'' @ decimal k | k. 1 \<le> k \<and> k \<le> length [''a'', ''b'']}"
      by blast
  qed
  have two: "(1::nat) \<le> 2 \<and> 2 \<le> length [''a'', ''b'']" by simp
  from makeBindVars_keys_values[of "[''a'', ''b'']"]
  have d: "dom (makeBindVars [''a'', ''b'']) = {''v'' @ decimal k | k. 1 \<le> k \<and> k \<le> length [''a'', ''b'']}"
    and l: "\<forall>k. 1 \<le> k \<and> k \<le> length [''a'', ''b''] \<longrightarrow>
         makeBindVars [''a'', ''b''] (''v'' @ decimal k) = Some ([''a'', ''b''] ! (k - 1))"
    by blast+
  from l two have "makeBindVars [''a'', ''b''] (''v'' @ decimal 2) = Some ([''a'', ''b''] ! (2 - 1))"
    by blast
  then have "makeBindVars [''a'', ''b''] ''v2'' = Some ''b''"
    by (simp add: decimal_2)
  with d keys show ?thesis by simp
qed

subsection \<open>Open and Close\<close>

text \<open>
  Claim C2, as the spec states it: \<^verbatim>\<open>Open\<close> with a transport that is not a connection
  returns a typed error and does not panic. The code panics: at a transport of dynamic type
  \<^verbatim>\<open>*net.TCPConn\<close> the call does not return at all.
\<close>

theorem Open_other_transport_counterexample:
  "Open example_template (NotProxyConn ''*net.TCPConn'') (SessionVars 2)
     = Panics (PanicValue ''not proxy.Conn? *net.TCPConn'')"
  by (simp add: Open_def)

text \<open>
  Claim C2, amended: for every call to \<^verbatim>\<open>Open\<close> with a transport argument that is not
  of the expected connection capability (not a \<^verbatim>\<open>*proxy.Conn\<close>), \<^verbatim>\<open>Open\<close> aborts: it
  panics with the message \<^verbatim>\<open>not proxy.Conn?\<close> followed by the dynamic type of the argument,
  and returns no value, typed error or other, to the caller.
\<close>

theorem Open_other_transport_panics:
  "Open m (NotProxyConn T) new_sess = Panics (PanicValue (''not proxy.Conn? '' @ T))"
  by (simp add: Open_def)

theorem Open_other_transport_panics_witness:
  "Open example_template (NotProxyConn ''<nil>'') (SessionVars 2)
     = Panics (PanicValue ''not proxy.Conn? <nil>'')"
  using Open_other_transport_panics[of example_template "''<nil>''" "SessionVars 2"]
  by simp

text \<open>With a \<^verbatim>\<open>*proxy.Conn\<close> the call returns a handler on the same server context,
  holding the newly made session variables and the connection, with no schema.\<close>

lemma Open_proxy_conn:
  "Open m (ProxyConn c) new_sess = Returns \<lparr>svr = svr m, sess = Some new_sess, conn = c, schema = None\<rparr>"
  by (simp add: Open_def)

text \<open>
  Claim C7. \<^verbatim>\<open>Close\<close> is idempotent. On a handler with a transport the call releases it
  (one \<open>ConnClose\<close> event), forgets it and returns what the transport's close returned. On
  a handler without a transport the call returns no error, releases nothing and changes
  nothing. After a call that returned the handler has no transport, so this second case
  is the case of every later call, whatever the collaborators are.
\<close>

theorem Close_idempotent:
  "(conn m = Some c \<and> conn_Close env tr c = Returns err \<longrightarrow>
      Close env m tr = (Returns err, m\<lparr>conn := None\<rparr>, tr @ [ConnClose c]))
   \<and> (conn m = None \<longrightarrow> Close env m tr = (Returns None, m, tr))
   \<and> (\<forall>r m' tr'. Close env m tr = (Returns r, m', tr') \<longrightarrow>
        conn m' = None \<and> (\<forall>env'. Close env' m' tr' = (Returns None, m', tr')))"
  by (auto simp: Close_def split: option.splits outcome.splits)

theorem Close_idempotent_witness:
  "Close ((example_env (Returns (None, None)) (Returns None) (Returns None))
            \<lparr>conn_Close := \<lambda>tr c. Returns (Some (CollabError ''close failed''))\<rparr>) example_handler []
     = (Returns (Some (CollabError ''close failed'')), example_handler\<lparr>conn := None\<rparr>, [ConnClose (Conn 1)])
   \<and> Close ((example_env (Returns (None, None)) (Returns None) (Returns None))
            \<lparr>conn_Close := \<lambda>tr c. Returns (Some (CollabError ''close failed''))\<rparr>)
         (example_handler\<lparr>conn := None\<rparr>) [ConnClose (Conn 1)]
     = (Returns None, example_handler\<lparr>conn := None\<rparr>, [ConnClose (Conn 1)])
   \<and> Close (example_env (Returns (None, None)) (Returns None) (Returns None)) example_template []
     = (Returns None, example_template, [])"
proof -
  let ?env = "(example_env (Returns (None, None)) (Returns None) (Returns None))
                \<lparr>conn_Close := \<lambda>tr c. Returns (Some (CollabError ''close failed''))\<rparr>"
  let ?closed = "example_handler\<lparr>conn := None\<rparr>"
  note at_handler = Close_idempotent[of example_handler "Conn 1" ?env "[]"
      "Some (CollabError ''close failed'')"]
  have present: "conn example_handler = Some (Conn 1)
         \<and> conn_Close ?env [] (Conn 1) = Returns (Some (CollabError ''close failed''))"
    by (simp add: example_handler_def)
  from at_handler[THEN conjunct1, THEN mp, OF present]
  have first: "Close ?env example_handler []
      = (Returns (Some (CollabError ''close failed'')), ?closed, [ConnClose (Conn 1)])"
    by simp
  from at_handler[THEN conjunct2, THEN conjunct2, THEN spec, THEN spec, THEN spec, THEN mp, OF first]
  have "\<forall>env'. Close env' ?closed [ConnClose (Conn 1)] = (Returns None, ?closed, [ConnClose (Conn 1)])"
    by (rule conjunct2)
  then have again: "Close ?env ?closed [ConnClose (Conn 1)]
      = (Returns None, ?closed, [ConnClose (Conn 1)])"
    by (rule spec)
  have absent: "conn example_template = None"
    by (simp add: example_template_def NewMySqlHandler_def)
  from Close_idempotent[of example_template "Conn 1"
      "example_env (Returns (None, None)) (Returns None) (Returns None)" "[]" None,
      THEN conjunct2, THEN conjunct1, THEN mp, OF absent]
  have never_opened: "Close (example_env (Returns (None, None)) (Returns None) (Returns None))
      example_template [] = (Returns None, example_template, [])" .
  from first again never_opened show ?thesis by simp
qed

subsection \<open>Command dispatch\<close>

lemmas COM_defs =
  COM_INIT_DB_def COM_FIELD_LIST_def COM_QUERY_def COM_STMT_PREPARE_def COM_PING_def COM_QUIT_def

lemma recovered_Returns: "recovered b s (Returns r) = Returns r"
  by (simp add: recovered_def)

text \<open>
  Claim C8. A request whose command byte is field-list gets the protocol error with the
  deprecated-syntax code, whatever the rest of the payload is; nothing is written and
  the handler does not change.
\<close>

theorem field_list_rejected:
  "Handle env m writer (req\<lparr>Raw := COM_FIELD_LIST # payload\<rparr>) tr =
     (Returns (Some (MySqlError ER_WARN_DEPRECATED_SYNTAX
        (''command 4:'' @ CommandString env COM_FIELD_LIST @ '' is deprecated''))),
      m, req\<lparr>Raw := payload\<rparr>, tr)"
proof -
  have "decimal (unat COM_FIELD_LIST) = ''4''"
    by (simp add: COM_FIELD_LIST_def decimal_4)
  then show ?thesis
    by (simp add: Handle_def chooseCommand_def command_msg_def)
qed

theorem field_list_rejected_witness:
  "Handle (example_env (Returns (None, None)) (Returns None) (Returns None)) example_handler 0
      \<lparr>Raw = [4, 116, 49, 0]\<rparr> []
   = (Returns (Some (MySqlError 1287 ''command 4:Other is deprecated'')), example_handler,
      \<lparr>Raw = [116, 49, 0]\<rparr>, [])"
  using field_list_rejected[where env = "example_env (Returns (None, None)) (Returns None) (Returns None)"
      and m = example_handler and writer = 0 and req = "\<lparr>Raw = []\<rparr>" and payload = "[116, 49, 0]"
      and tr = "[]"]
  by (simp add: example_env_def COM_FIELD_LIST_def ER_WARN_DEPRECATED_SYNTAX_def)

text \<open>
  Claim C9. A request whose command byte is none of query, prepare, ping, quit, init-db
  and field-list gets the protocol error with the generic code; its message is
  \<^verbatim>\<open>command N:NAME not yet supported\<close> and so contains the decimal value \<open>N\<close> of the
  command byte and the name \<open>NAME\<close> the mysql package gives it.
\<close>

theorem unsupported_command:
  "cmd \<notin> {COM_QUERY, COM_STMT_PREPARE, COM_PING, COM_QUIT, COM_INIT_DB, COM_FIELD_LIST} \<Longrightarrow>
     Handle env m writer (req\<lparr>Raw := cmd # payload\<rparr>) tr =
       (Returns (Some (MySqlError ER_UNKNOWN_ERROR
          (''command '' @ decimal (unat cmd) @ '':'' @ CommandString env cmd @ '' not yet supported''))),
        m, req\<lparr>Raw := payload\<rparr>, tr)
     \<and> sublist (decimal (unat cmd))
          (''command '' @ decimal (unat cmd) @ '':'' @ CommandString env cmd @ '' not yet supported'')
     \<and> sublist (CommandString env cmd)
          (''command '' @ decimal (unat cmd) @ '':'' @ CommandString env cmd @ '' not yet supported'')"
proof -
  assume other: "cmd \<notin> {COM_QUERY, COM_STMT_PREPARE, COM_PING, COM_QUIT, COM_INIT_DB, COM_FIELD_LIST}"
  let ?msg = "''command '' @ decimal (unat cmd) @ '':'' @ CommandString env cmd @ '' not yet supported''"
  have number: "sublist (decimal (unat cmd)) ?msg"
    unfolding sublist_def by blast
  have "?msg = (''command '' @ decimal (unat cmd) @ '':'') @ CommandString env cmd @ '' not yet supported''"
    by simp
  then have name: "sublist (CommandString env cmd) ?msg"
    unfolding sublist_def by blast
  from other have "Handle env m writer (req\<lparr>Raw := cmd # payload\<rparr>) tr =
       (Returns (Some (MySqlError ER_UNKNOWN_ERROR ?msg)), m, req\<lparr>Raw := payload\<rparr>, tr)"
    by (simp add: Handle_def chooseCommand_def command_msg_def)
  with number name show ?thesis by blast
qed

theorem unsupported_command_witness:
  "Handle (example_env (Returns (None, None)) (Returns None) (Returns None)) example_handler 0
      \<lparr>Raw = [0, 1, 2]\<rparr> []
   = (Returns (Some (MySqlError 1105 ''command 0:Sleep not yet supported'')), example_handler,
      \<lparr>Raw = [1, 2]\<rparr>, [])"
proof -
  have other: "(0::byte) \<notin> {COM_QUERY, COM_STMT_PREPARE, COM_PING, COM_QUIT, COM_INIT_DB, COM_FIELD_LIST}"
    by (simp add: COM_defs)
  show ?thesis
    using unsupported_command[OF other, where env = "example_env (Returns (None, None)) (Returns None) (Returns None)"
        and m = example_handler and writer = 0 and req = "\<lparr>Raw = []\<rparr>" and payload = "[1, 2]"
        and tr = "[]"]
    by (simp add: decimal_0 example_env_def ER_UNKNOWN_ERROR_def)
qed

subsection \<open>Schemas\<close>

text \<open>
  Claim C4. For a name that the schema registry of the server context does not hold,
  \<^verbatim>\<open>SchemaUse\<close> returns nil and leaves the handler, with its active schema, as it was; an
  init-db request with such a name returns the error \<^verbatim>\<open>Schema not found\<close> with the name,
  writes no OK (no event is added) and leaves the handler unchanged.
\<close>

theorem SchemaUse_unknown:
  "(schemas (svr m) db = None \<longrightarrow> SchemaUse m db = (None, m))
   \<and> (schemas (svr m) (string_of_bytes name) = None \<longrightarrow>
        Handle env m writer (req\<lparr>Raw := COM_INIT_DB # name\<rparr>) tr =
          (Returns (Some (Errorf (''Schema not found '' @ string_of_bytes name))), m,
           req\<lparr>Raw := name\<rparr>, tr))"
  by (simp add: SchemaUse_def svr_Schema_def Handle_def chooseCommand_def COM_defs)

lemma string_of_bytes_nope: "string_of_bytes [110, 111, 112, 101] = ''nope''"
  by code_simp

theorem SchemaUse_unknown_witness:
  "SchemaUse example_handler ''nope'' = (None, example_handler)
   \<and> schema (snd (SchemaUse example_handler ''nope'')) = Some (Schema ''db'')
   \<and> Handle (example_env (Returns (None, None)) (Returns None) (Returns None)) example_handler 0
        \<lparr>Raw = [2, 110, 111, 112, 101]\<rparr> []
      = (Returns (Some (Errorf ''Schema not found nope'')), example_handler,
         \<lparr>Raw = [110, 111, 112, 101]\<rparr>, [])"
proof -
  have absent: "schemas (svr example_handler) ''nope'' = None"
    by (simp add: example_handler_def example_svr_def)
  then have absent': "schemas (svr example_handler) (string_of_bytes [110, 111, 112, 101]) = None"
    by (simp add: string_of_bytes_nope)
  have active: "schema example_handler = Some (Schema ''db'')"
    by (simp add: example_handler_def)
  from SchemaUse_unknown[where m = example_handler and db = "''nope''" and name = "[110, 111, 112, 101]"
      and env = "example_env (Returns (None, None)) (Returns None) (Returns None)" and writer = 0
      and req = "\<lparr>Raw = []\<rparr>" and tr = "[]"]
    absent absent' active
  show ?thesis
    by (simp add: string_of_bytes_nope COM_INIT_DB_def)
qed

text \<open>A handler made by \<^verbatim>\<open>Open\<close> has no schema until \<^verbatim>\<open>SchemaUse\<close> finds one.\<close>

lemma Open_no_schema: "Open m0 connI new_sess = Returns m \<Longrightarrow> schema m = None"
  by (auto simp: Open_def split: transport.splits)

lemma SchemaUse_keeps_no_schema:
  "schema m = None \<Longrightarrow> SchemaUse m db = (None, m') \<Longrightarrow> schema m' = None"
  by (auto simp: SchemaUse_def split: option.splits)

text \<open>
  Claim C5. On a handler with no schema (none was set by a successful init-db or
  \<^verbatim>\<open>SchemaUse\<close>), every query and every prepare request fails with the error
  \<^verbatim>\<open>no schema in use\<close>, before any collaborator is called; this error is different from
  the \<^verbatim>\<open>Schema not found\<close> error of init-db, whatever the name in that one is.
\<close>

theorem query_without_schema:
  "schema m = None \<Longrightarrow> cmd = COM_QUERY \<or> cmd = COM_STMT_PREPARE \<Longrightarrow>
     handleQuery env m writer sql tr = (Returns (Some (Errorf ''no schema in use'')), tr)
     \<and> Handle env m writer (req\<lparr>Raw := cmd # payload\<rparr>) tr =
         (Returns (Some (Errorf ''no schema in use'')), m, req\<lparr>Raw := payload\<rparr>, tr)
     \<and> Errorf ''no schema in use'' \<noteq> Errorf (''Schema not found '' @ db)"
  by (auto simp: handleQuery_def handleQuery_body_def recovered_def Handle_def chooseCommand_def COM_defs)

theorem query_without_schema_witness:
  "Handle (example_env (Returns (None, None)) (Returns None) (Returns None))
      (example_handler\<lparr>schema := None\<rparr>) 0 \<lparr>Raw = [3, 115, 101, 108]\<rparr> []
   = (Returns (Some (Errorf ''no schema in use'')), example_handler\<lparr>schema := None\<rparr>,
      \<lparr>Raw = [115, 101, 108]\<rparr>, [])"
proof -
  have none: "schema (example_handler\<lparr>schema := None\<rparr>) = None" by simp
  have query: "(3::byte) = COM_QUERY \<or> (3::byte) = COM_STMT_PREPARE" by (simp add: COM_defs)
  from query_without_schema[OF none query,
      where env = "example_env (Returns (None, None)) (Returns None) (Returns None)" and writer = 0
      and tr = "[]" and req = "\<lparr>Raw = []\<rparr>" and payload = "[115, 101, 108]"]
  show ?thesis by simp
qed

subsection \<open>The query pipeline\<close>

text \<open>The two paths of \<^verbatim>\<open>strings.ToLower\<close>.\<close>

lemma ToLower_ascii: "list_all is_ascii s \<Longrightarrow> ToLower f s = map lower_char s"
  by (simp add: ToLower_def)

lemma ToLower_unicode: "\<not> list_all is_ascii s \<Longrightarrow> ToLower f s = f s"
  by (simp add: ToLower_def)

lemma ToLower_SET: "ToLower f ''SET autocommit=1'' = ''set autocommit=1''"
proof -
  have "list_all is_ascii ''SET autocommit=1''" by code_simp
  moreover have "map lower_char ''SET autocommit=1'' = ''set autocommit=1''" by code_simp
  ultimately show ?thesis by (simp add: ToLower_ascii)
qed

lemma ToLower_SELEC: "ToLower f ''SELEC 1'' = ''selec 1''"
proof -
  have "list_all is_ascii ''SELEC 1''" by code_simp
  moreover have "map lower_char ''SELEC 1'' = ''selec 1''" by code_simp
  ultimately show ?thesis by (simp add: ToLower_ascii)
qed

lemma ToLower_set_x: "ToLower f ''set x'' = ''set x''"
proof -
  have "list_all is_ascii ''set x''" by code_simp
  moreover have "map lower_char ''set x'' = ''set x''" by code_simp
  ultimately show ?thesis by (simp add: ToLower_ascii)
qed

text \<open>
  Claim C3. When the planner returns an error (which needs an active schema, or the
  planner is not asked): if the lower-cased SQL text, \<^verbatim>\<open>strings.ToLower(sql)\<close>, begins
  with \<^verbatim>\<open>set\<close> and a blank, the handler writes OK on the transport and returns what that
  write returns, which does not depend on the planning error (a panic of the write goes
  through the recovery handler, with the lower-cased text); for every other text it returns
  the planning error as it is and writes nothing. This holds whatever the Unicode tables of
  \<^verbatim>\<open>strings.ToLower\<close> are.
\<close>

theorem handleQuery_planning_error:
  "schema m = Some s \<Longrightarrow>
   BuildMySqlJob env tr (svr m) (query_ctx m sql) = Returns (jb, Some err) \<Longrightarrow>
     (HasPrefix (ToLower (unicode_ToLower env) sql) ''set '' \<longrightarrow>
        handleQuery env m writer sql tr =
          (recovered (SupressRecover (Config (svr m))) (ToLower (unicode_ToLower env) sql)
             (conn_WriteOK env (tr @ [Build (query_ctx m sql)]) (conn m) None),
           tr @ [Build (query_ctx m sql), ConnWriteOK (conn m) None])
        \<and> (\<forall>r. conn_WriteOK env (tr @ [Build (query_ctx m sql)]) (conn m) None = Returns r \<longrightarrow>
              fst (handleQuery env m writer sql tr) = Returns r))
     \<and> (\<not> HasPrefix (ToLower (unicode_ToLower env) sql) ''set '' \<longrightarrow>
          handleQuery env m writer sql tr = (Returns (Some err), tr @ [Build (query_ctx m sql)]))"
  by (simp add: handleQuery_def handleQuery_body_def Let_def recovered_Returns)

theorem handleQuery_planning_error_witness:
  "handleQuery (example_env (Returns (None, Some (CollabError ''parse error''))) (Returns None) (Returns None))
      example_handler 0 ''SET autocommit=1'' []
     = (Returns None,
        [Build (query_ctx example_handler ''SET autocommit=1''), ConnWriteOK (Some (Conn 1)) None])
   \<and> handleQuery (example_env (Returns (None, Some (CollabError ''parse error''))) (Returns None) (Returns None))
      example_handler 0 ''SELEC 1'' []
     = (Returns (Some (CollabError ''parse error'')), [Build (query_ctx example_handler ''SELEC 1'')])"
proof -
  let ?env = "example_env (Returns (None, Some (CollabError ''parse error''))) (Returns None) (Returns None)"
  have active: "schema example_handler = Some (Schema ''db'')"
    by (simp add: example_handler_def)
  have fails: "BuildMySqlJob ?env [] (svr example_handler) (query_ctx example_handler q)
             = Returns (None, Some (CollabError ''parse error''))" for q
    by (simp add: example_env_def)
  have is_set: "HasPrefix (ToLower (unicode_ToLower ?env) ''SET autocommit=1'') ''set ''"
    by (simp add: ToLower_SET HasPrefix_def)
  have no_set: "\<not> HasPrefix (ToLower (unicode_ToLower ?env) ''SELEC 1'') ''set ''"
    by (simp add: ToLower_SELEC HasPrefix_def)
  have ok: "conn_WriteOK ?env tr c r = Returns None" for tr c r
    by (simp add: example_env_def)
  have c: "conn example_handler = Some (Conn 1)"
    by (simp add: example_handler_def)
  show ?thesis
    using handleQuery_planning_error[OF active fails, of "''SET autocommit=1''" 0]
          handleQuery_planning_error[OF active fails, of "''SELEC 1''" 0] is_set no_set
    by (simp add: ok c recovered_Returns)
qed

text \<open>
  A text that is not ASCII takes the Unicode path: when that path lowers \<^verbatim>\<open>SET\<close> followed
  by a capital E with acute accent (bytes C3 89) to \<^verbatim>\<open>set\<close> followed by the small letter
  (bytes C3 A9), the planner fails, the write of the OK panics and recovery is on, the
  returned error carries the text as the Unicode path lowered it.
\<close>

lemma not_ascii_SET_E_acute: "\<not> list_all is_ascii (''SET '' @ [CHR 0xC3, CHR 0x89])"
  by code_simp

lemma handleQuery_recovered_unicode:
  "unicode_ToLower env (''SET '' @ [CHR 0xC3, CHR 0x89]) = ''set '' @ [CHR 0xC3, CHR 0xA9] \<Longrightarrow>
   schema m = Some s \<Longrightarrow> \<not> SupressRecover (Config (svr m)) \<Longrightarrow>
   BuildMySqlJob env tr (svr m) (query_ctx m (''SET '' @ [CHR 0xC3, CHR 0x89])) = Returns (jb, Some err) \<Longrightarrow>
   conn_WriteOK env (tr @ [Build (query_ctx m (''SET '' @ [CHR 0xC3, CHR 0x89]))]) (conn m) None
     = Panics (PanicValue ''boom'') \<Longrightarrow>
   fst (handleQuery env m writer (''SET '' @ [CHR 0xC3, CHR 0x89]) tr)
     = Returns (Some (Errorf (''handle query set '' @ [CHR 0xC3, CHR 0xA9] @ '' error boom'')))"
  using ToLower_unicode[OF not_ascii_SET_E_acute, of "unicode_ToLower env"]
  by (simp add: handleQuery_def handleQuery_body_def Let_def recovered_def HasPrefix_def)

text \<open>
  The end of the pipeline: when \<^verbatim>\<open>Finalize\<close> succeeds and \<^verbatim>\<open>Run\<close> returns, with an
  error or without, the job is closed once and the result of \<^verbatim>\<open>Run\<close> is returned; when
  \<^verbatim>\<open>Finalize\<close> returns an error the function returns at once.
\<close>

lemma handleQuery_run_closes:
  "job_Finalize env tr j t = Returns None \<Longrightarrow>
   job_Run env (tr @ [JobFinalize j t]) j = Returns err \<Longrightarrow>
   job_Close env (tr @ [JobFinalize j t, JobRun j]) j = Returns cerr \<Longrightarrow>
     handleQuery_run env j t tr = (Returns err, tr @ [JobFinalize j t, JobRun j, JobClose j])"
  by (simp add: handleQuery_run_def Let_def)

lemma handleQuery_run_finalize_error:
  "job_Finalize env tr j t = Returns (Some e) \<Longrightarrow>
     handleQuery_run env j t tr = (Returns (Some e), tr @ [JobFinalize j t])"
  by (simp add: handleQuery_run_def Let_def)

text \<open>
  Claim C1 says that the job's \<^verbatim>\<open>Close\<close> is called exactly once whenever the planner
  returned a job, also when \<^verbatim>\<open>Finalize\<close> fails. The code does so when \<^verbatim>\<open>Run\<close> was
  reached, but returns early when \<^verbatim>\<open>Finalize\<close> fails: for a select statement whose
  \<^verbatim>\<open>Finalize\<close> returns an error, the calls made are the planner and \<^verbatim>\<open>Finalize\<close>, the
  error is returned and \<^verbatim>\<open>Close\<close> is called zero times.
\<close>

theorem handleQuery_finalize_error_skips_close:
  "handleQuery (example_env (Returns (Some (example_job SqlSelect), None))
                  (Returns (Some (CollabError ''finalize failed''))) (Returns None))
      example_handler 0 ''select 1'' []
   = (Returns (Some (CollabError ''finalize failed'')),
      [Build (query_ctx example_handler ''select 1''),
       JobFinalize (example_job SqlSelect) (MySqlResultWriter 0 (Ctx (example_job SqlSelect)))])
   \<and> close_count (example_job SqlSelect)
        (snd (handleQuery (example_env (Returns (Some (example_job SqlSelect), None))
                  (Returns (Some (CollabError ''finalize failed''))) (Returns None))
               example_handler 0 ''select 1'' [])) = 0"
  by (simp add: handleQuery_def handleQuery_body_def handleQuery_run_def example_env_def
      example_handler_def example_job_def recovered_def close_count_def)

text \<open>The sibling path: when \<^verbatim>\<open>Run\<close> fails the same job is closed once.\<close>

lemma handleQuery_run_error_closes_once:
  "handleQuery (example_env (Returns (Some (example_job SqlSelect), None))
                  (Returns None) (Returns (Some (CollabError ''run failed''))))
      example_handler 0 ''select 1'' []
   = (Returns (Some (CollabError ''run failed'')),
      [Build (query_ctx example_handler ''select 1''),
       JobFinalize (example_job SqlSelect) (MySqlResultWriter 0 (Ctx (example_job SqlSelect))),
       JobRun (example_job SqlSelect), JobClose (example_job SqlSelect)])
   \<and> close_count (example_job SqlSelect)
        (snd (handleQuery (example_env (Returns (Some (example_job SqlSelect), None))
                  (Returns None) (Returns (Some (CollabError ''run failed''))))
               example_handler 0 ''select 1'' [])) = 1"
  by (simp add: handleQuery_def handleQuery_body_def handleQuery_run_def example_env_def
      example_handler_def example_job_def recovered_def close_count_def)

subsection \<open>The first byte of the payload\<close>

text \<open>With collaborators that never panic, nothing below the index of the first byte panics.\<close>

lemma handleQuery_run_returns:
  "collaborators_return env \<Longrightarrow> \<exists>r. fst (handleQuery_run env j t tr) = Returns r"
proof -
  assume a: "collaborators_return env"
  obtain r1 where r1: "job_Finalize env tr j t = Returns r1"
    using a unfolding collaborators_return_def by blast
  obtain r2 where r2: "job_Run env (tr @ [JobFinalize j t]) j = Returns r2"
    using a unfolding collaborators_return_def by blast
  obtain r3 where r3: "job_Close env (tr @ [JobFinalize j t] @ [JobRun j]) j = Returns r3"
    using a unfolding collaborators_return_def by blast
  show ?thesis
    using r1 r2 r3 by (cases r1) (simp_all add: handleQuery_run_def Let_def)
qed

lemma handleQuery_body_returns:
  "collaborators_return env \<Longrightarrow> \<exists>r. fst (snd (handleQuery_body env m writer sql tr)) = Returns r"
proof -
  assume a: "collaborators_return env"
  show ?thesis
  proof (cases "schema m")
    case None
    then show ?thesis by (simp add: handleQuery_body_def)
  next
    case (Some s)
    note active = Some
    obtain jb err where b: "BuildMySqlJob env tr (svr m) (query_ctx m sql) = Returns (jb, err)"
      using a unfolding collaborators_return_def by (metis surj_pair)
    obtain w where w: "conn_WriteOK env (tr @ [Build (query_ctx m sql)]) (conn m) None = Returns w"
      using a unfolding collaborators_return_def by blast
    show ?thesis
    proof (cases err)
      case (Some e)
      then show ?thesis using active b w
        by (simp add: handleQuery_body_def Let_def)
    next
      case None
      note planned = None
      show ?thesis
      proof (cases jb)
        case None
        then show ?thesis using active b planned
          by (simp add: handleQuery_body_def Let_def)
      next
        case (Some j)
        show ?thesis
        proof (cases "stmt_switch writer (Ctx j) (Stmt (Ctx j))")
          case (Writer t)
          obtain r where "fst (handleQuery_run env j t (tr @ [Build (query_ctx m sql)])) = Returns r"
            using handleQuery_run_returns[OF a] by blast
          then show ?thesis using active b planned Some Writer
            by (simp add: handleQuery_body_def Let_def split: prod.splits)
        next
          case ReplyOK
          then show ?thesis using active b planned Some w
            by (simp add: handleQuery_body_def Let_def)
        next
          case (NotSupported T)
          then show ?thesis using active b planned Some
            by (simp add: handleQuery_body_def Let_def)
        qed
      qed
    qed
  qed
qed

lemma handleQuery_returns:
  "collaborators_return env \<Longrightarrow> \<exists>r. fst (handleQuery env m writer sql tr) = Returns r"
proof -
  assume a: "collaborators_return env"
  obtain r where "fst (snd (handleQuery_body env m writer sql tr)) = Returns r"
    using handleQuery_body_returns[OF a] by blast
  then show ?thesis
    by (auto simp: handleQuery_def recovered_Returns split: prod.splits)
qed

lemma chooseCommand_returns:
  "collaborators_return env \<Longrightarrow> Raw req = cmd # rest \<Longrightarrow>
     \<exists>r. fst (chooseCommand env m writer req tr) = Returns r"
proof -
  assume a: "collaborators_return env" and raw: "Raw req = cmd # rest"
  obtain q where q: "fst (handleQuery env m writer (string_of_bytes rest) tr) = Returns q"
    using handleQuery_returns[OF a] by blast
  have w: "\<exists>r. conn_WriteOK env tr c None = Returns r" for c
    using a unfolding collaborators_return_def by blast
  have cl: "\<exists>r. conn_Close env tr c = Returns r" for c
    using a unfolding collaborators_return_def by blast
  have c: "\<exists>r m' tr'. Close env m tr = (Returns r, m', tr')"
  proof (cases "conn m")
    case None
    then show ?thesis by (simp add: Close_def)
  next
    case (Some c)
    obtain r where "conn_Close env tr c = Returns r" using cl by blast
    with Some show ?thesis by (simp add: Close_def)
  qed
  show ?thesis
    using raw q w c
    by (auto simp: chooseCommand_def Let_def writeOK_def SchemaUse_def split: prod.splits option.splits)
qed

lemma example_env_returns:
  "collaborators_return (example_env (Returns b) (Returns f) (Returns r))"
  by (simp add: collaborators_return_def example_env_def)

lemma string_of_bytes_set: "string_of_bytes [115, 101, 116, 32, 120] = ''set x''"
  by code_simp

text \<open>
  Claim C10. \<^verbatim>\<open>Handle\<close> indexes the first byte of the payload without a guard. On an
  empty payload the index panics (outside the recovery handler of \<^verbatim>\<open>handleQuery\<close>, so the
  panic leaves \<^verbatim>\<open>Handle\<close>), and nothing else happens. On a payload with a first byte
  \<open>cmd\<close> and a remainder \<open>rest\<close>, the request is left holding \<open>rest\<close>, a query or prepare
  command runs the query pipeline on \<open>rest\<close> as the SQL text, an init-db command uses
  \<open>rest\<close> as the schema name, and the dispatch itself does not panic: when no collaborator
  panics, \<^verbatim>\<open>Handle\<close> returns.
\<close>

theorem Handle_first_byte:
  "(Raw req = [] \<longrightarrow> Handle env m writer req tr = (Panics IndexOutOfRange, m, req, tr))
   \<and> (\<forall>cmd rest. Raw req = cmd # rest \<longrightarrow>
        (case Handle env m writer req tr of (r, m', req', tr') \<Rightarrow> Raw req' = rest)
        \<and> (cmd = COM_QUERY \<or> cmd = COM_STMT_PREPARE \<longrightarrow>
             (case Handle env m writer req tr of (r, m', req', tr') \<Rightarrow>
                (r, tr') = handleQuery env m writer (string_of_bytes rest) tr))
        \<and> (cmd = COM_INIT_DB \<longrightarrow>
             fst (snd (Handle env m writer req tr)) = snd (SchemaUse m (string_of_bytes rest)))
        \<and> (collaborators_return env \<longrightarrow> (\<exists>r. fst (Handle env m writer req tr) = Returns r)))"
proof (intro conjI allI impI)
  assume "Raw req = []"
  then show "Handle env m writer req tr = (Panics IndexOutOfRange, m, req, tr)"
    by (simp add: Handle_def chooseCommand_def)
next
  fix cmd rest assume "Raw req = cmd # rest"
  then show "case Handle env m writer req tr of (r, m', req', tr') \<Rightarrow> Raw req' = rest"
    by (auto simp: Handle_def chooseCommand_def Let_def writeOK_def
        split: prod.splits outcome.splits option.splits)
next
  fix cmd rest assume "Raw req = cmd # rest" "cmd = COM_QUERY \<or> cmd = COM_STMT_PREPARE"
  then show "case Handle env m writer req tr of (r, m', req', tr') \<Rightarrow>
                (r, tr') = handleQuery env m writer (string_of_bytes rest) tr"
    by (auto simp: Handle_def chooseCommand_def Let_def COM_defs split: prod.splits)
next
  fix cmd rest assume "Raw req = cmd # rest" "cmd = COM_INIT_DB"
  then show "fst (snd (Handle env m writer req tr)) = snd (SchemaUse m (string_of_bytes rest))"
    by (auto simp: Handle_def chooseCommand_def Let_def COM_defs writeOK_def
        split: prod.splits option.splits)
next
  fix cmd rest assume "Raw req = cmd # rest" "collaborators_return env"
  then show "\<exists>r. fst (Handle env m writer req tr) = Returns r"
    using chooseCommand_returns by (simp add: Handle_def)
qed

lemma string_of_bytes_db: "string_of_bytes [100, 98] = ''db''"
  by code_simp

theorem Handle_first_byte_witness:
  "Handle (example_env (Returns (None, Some (CollabError ''parse error''))) (Returns None) (Returns None))
      example_handler 0 \<lparr>Raw = []\<rparr> []
     = (Panics IndexOutOfRange, example_handler, \<lparr>Raw = []\<rparr>, [])
   \<and> Handle (example_env (Returns (None, Some (CollabError ''parse error''))) (Returns None) (Returns None))
      example_handler 0 \<lparr>Raw = [3, 115, 101, 116, 32, 120]\<rparr> []
     = (Returns None, example_handler, \<lparr>Raw = [115, 101, 116, 32, 120]\<rparr>,
        [Build (query_ctx example_handler ''set x''), ConnWriteOK (Some (Conn 1)) None])
   \<and> fst (snd (Handle (example_env (Returns (None, Some (CollabError ''parse error''))) (Returns None)
                        (Returns None))
                (example_handler\<lparr>schema := None\<rparr>) 0 \<lparr>Raw = [2, 100, 98]\<rparr> []))
     = example_handler"
proof -
  let ?env = "example_env (Returns (None, Some (CollabError ''parse error''))) (Returns None) (Returns None)"
  let ?req = "\<lparr>Raw = [3, 115, 101, 116, 32, 120]\<rparr>"
  have empty: "Raw \<lparr>Raw = ([] :: byte list)\<rparr> = []" by simp
  from Handle_first_byte[where req = "\<lparr>Raw = []\<rparr>" and env = ?env and m = example_handler
      and writer = 0 and tr = "[]", THEN conjunct1, THEN mp, OF empty]
  have first: "Handle ?env example_handler 0 \<lparr>Raw = []\<rparr> []
      = (Panics IndexOutOfRange, example_handler, \<lparr>Raw = []\<rparr>, [])" .
  have raw: "Raw ?req = 3 # [115, 101, 116, 32, 120]" by simp
  have query: "(3::byte) = COM_QUERY \<or> (3::byte) = COM_STMT_PREPARE" by (simp add: COM_defs)
  have total: "collaborators_return ?env" by (rule example_env_returns)
  note nonempty = Handle_first_byte[where req = ?req and env = ?env and m = example_handler
      and writer = 0 and tr = "[]", THEN conjunct2, rule_format, OF raw]
  note rest = nonempty[THEN conjunct1]
  note sql = nonempty[THEN conjunct2, THEN conjunct1, THEN mp, OF query]
  note returns = nonempty[THEN conjunct2, THEN conjunct2, THEN conjunct2, THEN mp, OF total]
  have q: "handleQuery ?env example_handler 0 ''set x'' []
      = (Returns None, [Build (query_ctx example_handler ''set x''), ConnWriteOK (Some (Conn 1)) None])"
    by (simp add: handleQuery_def handleQuery_body_def example_env_def example_handler_def
        recovered_def HasPrefix_def ToLower_set_x Let_def)
  have h: "Handle ?env example_handler 0 ?req []
      = (Returns None, example_handler, \<lparr>Raw = [115, 101, 116, 32, 120]\<rparr>,
         [Build (query_ctx example_handler ''set x''), ConnWriteOK (Some (Conn 1)) None])"
    using rest sql returns q
    by (auto simp: string_of_bytes_set Handle_def chooseCommand_def COM_defs split: prod.splits)
  have raw_db: "Raw \<lparr>Raw = [2, 100, 98 :: byte]\<rparr> = 2 # [100, 98]" by simp
  have init_db: "(2::byte) = COM_INIT_DB" by (simp add: COM_defs)
  from Handle_first_byte[where req = "\<lparr>Raw = [2, 100, 98]\<rparr>" and env = ?env
      and m = "example_handler\<lparr>schema := None\<rparr>" and writer = 0 and tr = "[]",
      THEN conjunct2, rule_format, OF raw_db,
      THEN conjunct2, THEN conjunct2, THEN conjunct1, THEN mp, OF init_db]
  have "fst (snd (Handle ?env (example_handler\<lparr>schema := None\<rparr>) 0 \<lparr>Raw = [2, 100, 98]\<rparr> []))
      = snd (SchemaUse (example_handler\<lparr>schema := None\<rparr>) (string_of_bytes [100, 98]))" .
  then have use: "fst (snd (Handle ?env (example_handler\<lparr>schema := None\<rparr>) 0 \<lparr>Raw = [2, 100, 98]\<rparr> []))
      = example_handler"
    by (simp add: string_of_bytes_db SchemaUse_def svr_Schema_def example_handler_def example_svr_def)
  from first h use show ?thesis by simp
qed

end
